theory Spec2Isabelle
  imports Main "HOL-Library.Multiset" "HOL-Library.Char_ord" "HOL-Library.List_Lexorder"
begin

section \<open>The bookmark manager: a shallow embedding\<close>

text \<open>
  The development follows \<^verbatim>\<open>src/components/bookmark-manager.tsx\<close>, in the revision that has
  URL validation, search, sorting and the delete confirmation dialog (the second
  \<^verbatim>\<open>BookmarkManager\<close> of that file), and the table, policies and trigger of the SQL schema
  (\<^verbatim>\<open>src/unnamed/part_000\<close>).

  React state is a record that every handler takes and returns. What a handler sends to
  the outside (store commands, broadcast posts) is appended to a log, the field
  \<open>calls\<close>, which the source does not have: it is there to state which commands were
  issued. An \<^verbatim>\<open>await\<close> of a store command is modelled by its answer, which the handler
  receives as an argument; the store of the SQL schema computes such answers.
\<close>

subsection \<open>JavaScript strings\<close>

text \<open>
  A JavaScript string is a sequence of UTF-16 code units. The model covers the strings
  whose code units lie in U+0000..U+00FF, one \<^typ>\<open>char\<close> each. \<^verbatim>\<open>String.prototype.trim\<close>
  removes white space and line terminators at both ends; in this range they are TAB, LF,
  VT, FF, CR, SPACE and NBSP. \<^verbatim>\<open>toLowerCase\<close> maps A..Z and the capital letters
  U+00C0..U+00DE (but the multiplication sign U+00D7) to the letter 32 places up.
\<close>

definition isWhiteSpace :: "char \<Rightarrow> bool" where
  "isWhiteSpace c = (of_char c \<in> {9, 10, 11, 12, 13, 32, 160 :: nat})"

definition trim :: "string \<Rightarrow> string" where
  "trim s = rev (dropWhile isWhiteSpace (rev (dropWhile isWhiteSpace s)))"

definition toLowerChar :: "char \<Rightarrow> char" where
  "toLowerChar c =
     (let n = (of_char c :: nat)
      in if (65 \<le> n \<and> n \<le> 90) \<or> (192 \<le> n \<and> n \<le> 222 \<and> n \<noteq> 215)
         then char_of (n + 32) else c)"

definition toLowerCase :: "string \<Rightarrow> string" where
  "toLowerCase s = map toLowerChar s"

text \<open>\<^verbatim>\<open>s.includes(q)\<close>: \<open>q\<close> occurs in \<open>s\<close> as a contiguous run of code units.\<close>

fun startsWith :: "string \<Rightarrow> string \<Rightarrow> bool" where
  "startsWith s [] = True"
| "startsWith [] (q # qs) = False"
| "startsWith (c # cs) (q # qs) = (c = q \<and> startsWith cs qs)"

fun includes' :: "string \<Rightarrow> string \<Rightarrow> bool" where
  "includes' [] q = (q = [])"
| "includes' (c # cs) q = (startsWith (c # cs) q \<or> includes' cs q)"

text \<open>
  Truthiness of a \<^verbatim>\<open>string | null\<close>: \<^verbatim>\<open>null\<close> and the empty string are falsy.
\<close>

definition falsy :: "string option \<Rightarrow> bool" where
  "falsy v = (case v of None \<Rightarrow> True | Some s \<Rightarrow> s = [])"

text \<open>
  \<^verbatim>\<open>Array.prototype.sort(compareFn)\<close> is a stable sort: \<open>a\<close> comes before \<open>b\<close> when
  \<open>compareFn a b < 0\<close>, after it when \<open>compareFn a b > 0\<close>, and elements that compare
  equal keep their order. For a consistent comparator that fixes the result, which the
  insertion sort below computes.
\<close>

fun insert_cmp :: "('a \<Rightarrow> 'a \<Rightarrow> int) \<Rightarrow> 'a \<Rightarrow> 'a list \<Rightarrow> 'a list" where
  "insert_cmp compareFn x [] = [x]"
| "insert_cmp compareFn x (y # ys) =
     (if compareFn x y \<le> 0 then x # y # ys else y # insert_cmp compareFn x ys)"

definition array_sort :: "('a \<Rightarrow> 'a \<Rightarrow> int) \<Rightarrow> 'a list \<Rightarrow> 'a list" where
  "array_sort compareFn xs = foldr (insert_cmp compareFn) xs []"

text \<open>
  \<^verbatim>\<open>String.prototype.localeCompare\<close> depends on the host's locale and is a parameter
  \<open>localeCompare\<close> of everything that sorts. \<open>consistent\<close> is what ECMAScript asks of a
  comparator; \<open>codeUnitCompare\<close>, the comparison by code units, is one instance.
\<close>

definition consistent :: "(string \<Rightarrow> string \<Rightarrow> int) \<Rightarrow> bool" where
  "consistent localeCompare =
     ((\<forall>a b. localeCompare a b \<le> 0 \<or> localeCompare b a \<le> 0) \<and>
      (\<forall>a b c. localeCompare a b \<le> 0 \<and> localeCompare b c \<le> 0 \<longrightarrow> localeCompare a c \<le> 0))"

definition codeUnitCompare :: "string \<Rightarrow> string \<Rightarrow> int" where
  "codeUnitCompare a b = (if a < b then - 1 else if a = b then 0 else 1)"

text \<open>
  \<open>collationCompare\<close> is a second instance. It compares unit by unit as well, but ranks
  the punctuation marks \<open>-\<close>, \<open>:\<close> and \<open>.\<close> before the symbol \<open>+\<close>, and these before
  digits and letters, as the Unicode collation of the hosts does.
\<close>

definition collationWeight :: "char \<Rightarrow> nat" where
  "collationWeight c =
     (if c = CHR ''-'' then 0 else if c = CHR '':'' then 1 else if c = CHR ''.'' then 2
      else if c = CHR ''+'' then 3 else 4 + of_char c)"

definition collationCompare :: "string \<Rightarrow> string \<Rightarrow> int" where
  "collationCompare a b =
     (if map collationWeight a < map collationWeight b then - 1
      else if map collationWeight a = map collationWeight b then 0 else 1)"

text \<open>
  \<^verbatim>\<open>new URL(s)\<close> is the host's URL parser, a parameter \<open>parseURL\<close> of \<open>handleAdd\<close>:
  \<open>None\<close> when the constructor throws, otherwise the object's \<^verbatim>\<open>protocol\<close> and the
  serialisation \<^verbatim>\<open>toString()\<close> returns, its \<^verbatim>\<open>href\<close>. \<open>sampleURL\<close> is a small instance, for
  evaluating examples: it knows three addresses.
\<close>

record URL =
  protocol :: string
  href :: string

definition sampleURL :: "string \<Rightarrow> URL option" where
  "sampleURL s =
     (if s = ''https://example.com/docs''
      then Some \<lparr>protocol = ''https:'', href = ''https://example.com/docs''\<rparr>
      else if s = ''HTTP://Example.COM''
      then Some \<lparr>protocol = ''http:'', href = ''http://example.com/''\<rparr>
      else if s = ''ftp://example.com/f''
      then Some \<lparr>protocol = ''ftp:'', href = ''ftp://example.com/f''\<rparr>
      else None)"

subsection \<open>Data\<close>

text \<open>The type \<^verbatim>\<open>Bookmark\<close>; the field \<^verbatim>\<open>id\<close> is \<open>id'\<close> here.\<close>

record Bookmark =
  id' :: string
  title :: string
  url :: string
  created_at :: string

datatype SortBy = Latest | Oldest | Az

text \<open>
  The answer of a store command, \<^verbatim>\<open>{ data, error }\<close>: \<open>resp_error\<close> is the message of
  the error object, \<open>None\<close> for \<^verbatim>\<open>null\<close>.
\<close>

record 'a response =
  data :: "'a option"
  resp_error :: "string option"

text \<open>What the component sends out.\<close>

datatype call =
    Select
  | Insert "(string \<times> string) list"
  | Delete string
  | PostMessage string

text \<open>
  The component: its props (\<open>isAuthenticated\<close>, \<open>userId\<close>), whether the window has
  \<^verbatim>\<open>BroadcastChannel\<close>, its state, and the log. The state variables \<^verbatim>\<open>title\<close> and \<^verbatim>\<open>url\<close> of
  the form are \<open>form_title\<close> and \<open>form_url\<close>.
\<close>

record BookmarkManager =
  isAuthenticated :: bool
  userId :: "string option"
  hasBroadcastChannel :: bool
  bookmarks :: "Bookmark list"
  form_title :: string
  form_url :: string
  search :: string
  sortBy :: SortBy
  loading :: bool
  error :: "string option"
  deleteTarget :: "Bookmark option"
  deleteLoading :: bool
  calls :: "call list"

subsection \<open>The handlers\<close>

definition loadBookmarks :: "Bookmark list response \<Rightarrow> BookmarkManager \<Rightarrow> BookmarkManager" where
  "loadBookmarks resp t =
     (if falsy (userId t) then t
      else
        let t1 = t\<lparr>calls := calls t @ [Select]\<rparr>
        in case resp_error resp of
             Some message \<Rightarrow> t1\<lparr>error := Some message\<rparr>
           | None \<Rightarrow> t1\<lparr>bookmarks := (case data resp of None \<Rightarrow> [] | Some d \<Rightarrow> d)\<rparr>)"

definition notifyTabs :: "BookmarkManager \<Rightarrow> BookmarkManager" where
  "notifyTabs t =
     (if falsy (userId t) \<or> \<not> hasBroadcastChannel t then t
      else t\<lparr>calls := calls t @ [PostMessage (''bookmarks-sync-'' @ the (userId t))]\<rparr>)"

text \<open>
  The effect opens, for the current props, the channel the tab listens on; React closes
  it and runs the effect again when the props change, so the open channel is a function
  of the props.
\<close>

definition tabChannel :: "BookmarkManager \<Rightarrow> string option" where
  "tabChannel t =
     (if \<not> isAuthenticated t \<or> falsy (userId t) then None
      else if hasBroadcastChannel t then Some (''bookmarks-sync-'' @ the (userId t))
      else None)"

text \<open>
  A message posted on the channel named \<open>name\<close> reaches the \<^verbatim>\<open>BroadcastChannel\<close> objects
  of that name; \<^verbatim>\<open>tabChannel.onmessage\<close> reloads.
\<close>

definition onmessage :: "string \<Rightarrow> Bookmark list response \<Rightarrow> BookmarkManager \<Rightarrow> BookmarkManager" where
  "onmessage name resp t = (if tabChannel t = Some name then loadBookmarks resp t else t)"

text \<open>
  \<^verbatim>\<open>void loadBookmarks(); notifyTabs();\<close> at the end of \<open>handleAdd\<close>: the call of
  \<open>loadBookmarks\<close> returns at its \<^verbatim>\<open>await\<close>, whose request leaves only after the handler
  has run to its end, so the post to the other tabs comes first.
\<close>

definition handleAdd ::
  "(string \<Rightarrow> URL option) \<Rightarrow> unit response \<Rightarrow> Bookmark list response \<Rightarrow>
   BookmarkManager \<Rightarrow> BookmarkManager" where
  "handleAdd parseURL insertResp selectResp t0 =
     (let t = t0\<lparr>error := None\<rparr>
      in if trim (form_title t) = [] \<or> trim (form_url t) = []
         then t\<lparr>error := Some ''Title and URL are required.''\<rparr>
         else
           case parseURL (trim (form_url t)) of
             None \<Rightarrow> t\<lparr>error := Some ''Please enter a valid URL.''\<rparr>
           | Some parsedUrl \<Rightarrow>
               if protocol parsedUrl \<noteq> ''http:'' \<and> protocol parsedUrl \<noteq> ''https:''
               then t\<lparr>error := Some ''URL must start with http:// or https://''\<rparr>
               else
                 let t1 = t\<lparr>loading := True,
                            calls := calls t @
                              [Insert [(''title'', trim (form_title t)),
                                       (''url'', href parsedUrl)]]\<rparr>;
                     t2 = t1\<lparr>loading := False\<rparr>
                 in case resp_error insertResp of
                      Some message \<Rightarrow> t2\<lparr>error := Some message\<rparr>
                    | None \<Rightarrow>
                        loadBookmarks selectResp
                          (notifyTabs (t2\<lparr>form_title := [], form_url := []\<rparr>)))"

definition handleDelete :: "unit response \<Rightarrow> BookmarkManager \<Rightarrow> BookmarkManager" where
  "handleDelete deleteResp t0 =
     (case deleteTarget t0 of
        None \<Rightarrow> t0
      | Some target \<Rightarrow>
          let t1 = t0\<lparr>error := None, deleteLoading := True,
                      calls := calls t0 @ [Delete (id' target)]\<rparr>;
              t2 = t1\<lparr>deleteLoading := False\<rparr>
          in case resp_error deleteResp of
               Some message \<Rightarrow> t2\<lparr>error := Some message\<rparr>
             | None \<Rightarrow>
                 notifyTabs
                   (t2\<lparr>bookmarks := filter (\<lambda>bookmark. id' bookmark \<noteq> id' target) (bookmarks t2),
                       deleteTarget := None\<rparr>))"

text \<open>
  The Delete button of a list entry and the Cancel button of the dialog:
  \<^verbatim>\<open>setDeleteTarget(bookmark)\<close> and \<^verbatim>\<open>setDeleteTarget(null)\<close>.
\<close>

definition requestDelete :: "Bookmark \<Rightarrow> BookmarkManager \<Rightarrow> BookmarkManager" where
  "requestDelete bookmark t = t\<lparr>deleteTarget := Some bookmark\<rparr>"

definition cancelDelete :: "BookmarkManager \<Rightarrow> BookmarkManager" where
  "cancelDelete t = t\<lparr>deleteTarget := None\<rparr>"

subsection \<open>The derived list\<close>

definition compareBookmarks ::
  "(string \<Rightarrow> string \<Rightarrow> int) \<Rightarrow> SortBy \<Rightarrow> Bookmark \<Rightarrow> Bookmark \<Rightarrow> int" where
  "compareBookmarks localeCompare sb a b =
     (if sb = Oldest then localeCompare (created_at a) (created_at b)
      else if sb = Az then localeCompare (title a) (title b)
      else localeCompare (created_at b) (created_at a))"

definition sortedBookmarks :: "(string \<Rightarrow> string \<Rightarrow> int) \<Rightarrow> BookmarkManager \<Rightarrow> Bookmark list" where
  "sortedBookmarks localeCompare t =
     array_sort (compareBookmarks localeCompare (sortBy t)) (bookmarks t)"

definition matchesSearch :: "string \<Rightarrow> Bookmark \<Rightarrow> bool" where
  "matchesSearch s bookmark =
     (let query = toLowerCase (trim s)
      in if query = [] then True
         else includes' (toLowerCase (title bookmark)) query \<or>
              includes' (toLowerCase (url bookmark)) query)"

text \<open>
  The \<^verbatim>\<open>created_at\<close> of a bookmark is a text. For a reading \<open>instant\<close> of such texts as
  times, \<open>localeCompare\<close> is chronological on a list when it orders the texts of the list
  as \<open>instant\<close> orders their times.
\<close>

definition chronological ::
  "(string \<Rightarrow> string \<Rightarrow> int) \<Rightarrow> (string \<Rightarrow> nat) \<Rightarrow> Bookmark list \<Rightarrow> bool" where
  "chronological localeCompare instant items =
     (\<forall>a\<in>set items. \<forall>b\<in>set items.
        (localeCompare (created_at a) (created_at b) \<le> 0) =
        (instant (created_at a) \<le> instant (created_at b)))"

definition filteredBookmarks :: "(string \<Rightarrow> string \<Rightarrow> int) \<Rightarrow> BookmarkManager \<Rightarrow> Bookmark list" where
  "filteredBookmarks localeCompare t =
     filter (matchesSearch (search t)) (sortedBookmarks localeCompare t)"

subsection \<open>The store\<close>

text \<open>
  The table \<^verbatim>\<open>public.bookmarks\<close>: every column is \<^verbatim>\<open>not null\<close>, \<^verbatim>\<open>id\<close> is the primary
  key. A \<^verbatim>\<open>timestamptz\<close> is a number of microseconds; \<open>render\<close>, a parameter of the query,
  is the text the API renders it to.
\<close>

record row =
  row_id :: string
  user_id :: string
  row_title :: string
  row_url :: string
  row_created_at :: nat

text \<open>
  The policies. \<open>uid\<close> is \<^verbatim>\<open>auth.uid()\<close>, \<open>None\<close> without a session; the comparison
  \<^verbatim>\<open>auth.uid() = user_id\<close> is not true when a side is \<^verbatim>\<open>null\<close>. A \<^verbatim>\<open>using\<close> policy decides
  which rows a command sees; a \<^verbatim>\<open>with check\<close> policy rejects the command for a new row
  that fails it.
\<close>

definition read_own :: "string option \<Rightarrow> row \<Rightarrow> bool" where
  "read_own uid r = (uid = Some (user_id r))"

definition delete_own :: "string option \<Rightarrow> row \<Rightarrow> bool" where
  "delete_own uid r = (uid = Some (user_id r))"

definition insert_own :: "string option \<Rightarrow> string option \<Rightarrow> bool" where
  "insert_own uid new_user_id = (uid \<noteq> None \<and> uid = new_user_id)"

text \<open>The trigger function: \<^verbatim>\<open>new.user_id := auth.uid()\<close>, before insert, for each row.\<close>

record new_row =
  new_user_id :: "string option"
  new_title :: "string option"
  new_url :: "string option"

definition set_bookmark_user_id :: "string option \<Rightarrow> new_row \<Rightarrow> new_row" where
  "set_bookmark_user_id uid new = new\<lparr>new_user_id := uid\<rparr>"

definition failed :: "string \<Rightarrow> 'a response" where
  "failed message = \<lparr>data = None, resp_error = Some message\<rparr>"

text \<open>
  The commands the component issues, as the store answers them. \<open>fault\<close> is an error
  that keeps the command from running (the store is unreachable, the request is
  refused): the table is then as it was.

  \<^verbatim>\<open>.select("id,title,url,created_at").order("created_at", { ascending: false })\<close>:
  the rows the read policy shows, latest first.
\<close>

definition to_bookmark :: "(nat \<Rightarrow> string) \<Rightarrow> row \<Rightarrow> Bookmark" where
  "to_bookmark render r =
     \<lparr>id' = row_id r, title = row_title r, url = row_url r, created_at = render (row_created_at r)\<rparr>"

definition select_rows :: "string option \<Rightarrow> row list \<Rightarrow> row list" where
  "select_rows uid rows = rev (sort_key row_created_at (filter (read_own uid) rows))"

definition supabase_select ::
  "(nat \<Rightarrow> string) \<Rightarrow> string option \<Rightarrow> string option \<Rightarrow> row list \<Rightarrow> Bookmark list response" where
  "supabase_select render fault uid rows =
     (case fault of
        Some message \<Rightarrow> failed message
      | None \<Rightarrow> \<lparr>data = Some (map (to_bookmark render) (select_rows uid rows)), resp_error = None\<rparr>)"

text \<open>
  \<^verbatim>\<open>.insert({...})\<close>: the payload names columns; \<^verbatim>\<open>id\<close> and \<^verbatim>\<open>created_at\<close> take their
  defaults \<^verbatim>\<open>gen_random_uuid()\<close> and \<^verbatim>\<open>now()\<close>, given as arguments. The trigger runs first,
  then the insert policy is checked, then the constraints.
\<close>

definition supabase_insert ::
  "string option \<Rightarrow> string option \<Rightarrow> string \<Rightarrow> nat \<Rightarrow> (string \<times> string) list \<Rightarrow> row list \<Rightarrow>
   unit response \<times> row list" where
  "supabase_insert fault uid gen_random_uuid now payload rows =
     (case fault of
        Some message \<Rightarrow> (failed message, rows)
      | None \<Rightarrow>
          let new = set_bookmark_user_id uid
                      \<lparr>new_user_id = map_of payload ''user_id'',
                       new_title = map_of payload ''title'',
                       new_url = map_of payload ''url''\<rparr>
          in if \<not> insert_own uid (new_user_id new)
             then (failed ''new row violates row-level security policy'', rows)
             else
               case (new_user_id new, new_title new, new_url new) of
                 (Some owner, Some t, Some u) \<Rightarrow>
                   if gen_random_uuid \<in> set (map row_id rows)
                   then (failed ''duplicate key value violates unique constraint'', rows)
                   else (\<lparr>data = None, resp_error = None\<rparr>,
                         rows @ [\<lparr>row_id = gen_random_uuid, user_id = owner, row_title = t,
                                  row_url = u, row_created_at = now\<rparr>])
               | _ \<Rightarrow> (failed ''null value violates not-null constraint'', rows))"

text \<open>
  \<^verbatim>\<open>.delete().eq("id", id)\<close>: the rows with that id which the read policy (the command
  reads \<^verbatim>\<open>id\<close>) and the delete policy show are removed. A command that removes no row is
  not an error.
\<close>

definition supabase_delete ::
  "string option \<Rightarrow> string option \<Rightarrow> string \<Rightarrow> row list \<Rightarrow> unit response \<times> row list" where
  "supabase_delete fault uid i rows =
     (case fault of
        Some message \<Rightarrow> (failed message, rows)
      | None \<Rightarrow>
          (\<lparr>data = None, resp_error = None\<rparr>,
           filter (\<lambda>r. \<not> (row_id r = i \<and> read_own uid r \<and> delete_own uid r)) rows))"

subsection \<open>The component on the store\<close>

text \<open>
  A tab and the table together; the caller of a command is the tab's user.
  \<open>reload\<close> is \<open>loadBookmarks\<close> with the answer of the store, \<open>confirmDelete\<close> is the
  Delete button of the dialog, \<open>handleDelete\<close> with the answer of the store.
\<close>

definition reload ::
  "(nat \<Rightarrow> string) \<Rightarrow> string option \<Rightarrow> BookmarkManager \<times> row list \<Rightarrow> BookmarkManager \<times> row list" where
  "reload render fault w =
     (case w of (t, rows) \<Rightarrow> (loadBookmarks (supabase_select render fault (userId t) rows) t, rows))"

definition confirmDelete ::
  "string option \<Rightarrow> BookmarkManager \<times> row list \<Rightarrow> BookmarkManager \<times> row list" where
  "confirmDelete fault w =
     (case w of (t, rows) \<Rightarrow>
        (case deleteTarget t of
           None \<Rightarrow> (t, rows)
         | Some target \<Rightarrow>
             (case supabase_delete fault (userId t) (id' target) rows of
                (deleteResp, rows') \<Rightarrow> (handleDelete deleteResp t, rows'))))"

subsection \<open>Sample data\<close>

text \<open>
  Two users, three rows and a signed-in tab of the first user, for evaluating the
  definitions. \<open>laterRow\<close> is a row of the first user made half a second after the first
  sample row. \<open>sampleRender\<close> renders the timestamps of these rows as the store's API does,
  \<open>sampleInstant\<close> reads the texts back.
\<close>

definition userA :: string where
  "userA = ''11111111-1111-4111-8111-111111111111''"

definition userB :: string where
  "userB = ''22222222-2222-4222-8222-222222222222''"

definition sampleRender :: "nat \<Rightarrow> string" where
  "sampleRender n =
     (if n = 1704101400000000 then ''2024-01-01T09:30:00+00:00''
      else if n = 1704101400500000 then ''2024-01-01T09:30:00.5+00:00''
      else if n = 1704189600000000 then ''2024-01-02T10:00:00+00:00''
      else if n = 1704268800000000 then ''2024-01-03T08:00:00+00:00''
      else [])"

definition sampleInstant :: "string \<Rightarrow> nat" where
  "sampleInstant s =
     (if s = ''2024-01-01T09:30:00+00:00'' then 1704101400000000
      else if s = ''2024-01-01T09:30:00.5+00:00'' then 1704101400500000
      else if s = ''2024-01-02T10:00:00+00:00'' then 1704189600000000
      else if s = ''2024-01-03T08:00:00+00:00'' then 1704268800000000
      else 0)"

definition laterRow :: row where
  "laterRow =
     \<lparr>row_id = ''00000000-0000-4000-8000-000000000004'', user_id = userA,
      row_title = ''Later'', row_url = ''https://example.com/later'',
      row_created_at = 1704101400500000\<rparr>"

definition sampleRows :: "row list" where
  "sampleRows =
     [\<lparr>row_id = ''00000000-0000-4000-8000-000000000001'', user_id = userA,
       row_title = ''Docs'', row_url = ''https://example.com/docs'',
       row_created_at = 1704101400000000\<rparr>,
      \<lparr>row_id = ''00000000-0000-4000-8000-000000000002'', user_id = userA,
       row_title = ''GitHub'', row_url = ''https://github.com/'',
       row_created_at = 1704189600000000\<rparr>,
      \<lparr>row_id = ''00000000-0000-4000-8000-000000000003'', user_id = userB,
       row_title = ''News'', row_url = ''https://news.example.org/'',
       row_created_at = 1704268800000000\<rparr>]"

definition docs :: Bookmark where
  "docs = \<lparr>id' = ''00000000-0000-4000-8000-000000000001'', title = ''Docs'',
            url = ''https://example.com/docs'', created_at = ''2024-01-01T09:30:00+00:00''\<rparr>"

definition github :: Bookmark where
  "github = \<lparr>id' = ''00000000-0000-4000-8000-000000000002'', title = ''GitHub'',
              url = ''https://github.com/'', created_at = ''2024-01-02T10:00:00+00:00''\<rparr>"

definition news :: Bookmark where
  "news = \<lparr>id' = ''00000000-0000-4000-8000-000000000003'', title = ''News'',
            url = ''https://news.example.org/'', created_at = ''2024-01-03T08:00:00+00:00''\<rparr>"

definition later :: Bookmark where
  "later = \<lparr>id' = ''00000000-0000-4000-8000-000000000004'', title = ''Later'',
             url = ''https://example.com/later'', created_at = ''2024-01-01T09:30:00.5+00:00''\<rparr>"

definition sampleTab :: BookmarkManager where
  "sampleTab =
     \<lparr>isAuthenticated = True, userId = Some userA, hasBroadcastChannel = True,
      bookmarks = [github, docs], form_title = '' Docs '',
      form_url = '' https://example.com/docs'', search = [], sortBy = Latest,
      loading = False, error = None, deleteTarget = None, deleteLoading = False,
      calls = []\<rparr>"

definition ok :: "'a response" where
  "ok = \<lparr>data = None, resp_error = None\<rparr>"

section \<open>Properties\<close>

subsection \<open>Strings and sorting\<close>

lemma trim_all_white: "\<forall>c\<in>set q. isWhiteSpace c \<Longrightarrow> trim q = []"
proof -
  assume "\<forall>c\<in>set q. isWhiteSpace c"
  then have a: "dropWhile isWhiteSpace q = []" by simp
  show ?thesis unfolding trim_def a by simp
qed

lemma toLowerCase_Nil_iff: "toLowerCase s = [] \<longleftrightarrow> s = []"
  by (simp add: toLowerCase_def)

lemma startsWith_iff: "startsWith s q \<longleftrightarrow> (\<exists>r. s = q @ r)"
  by (induction s q rule: startsWith.induct) auto

lemma includes'_iff: "includes' s q \<longleftrightarrow> (\<exists>p r. s = p @ q @ r)"
proof (induction s)
  case Nil
  then show ?case by simp
next
  case (Cons c cs)
  show ?case
  proof
    assume "includes' (c # cs) q"
    then consider "startsWith (c # cs) q" | "includes' cs q" by auto
    then show "\<exists>p r. c # cs = p @ q @ r"
    proof cases
      case 1
      then obtain r where "c # cs = q @ r" by (auto simp: startsWith_iff)
      then have "c # cs = [] @ q @ r" by simp
      then show ?thesis by blast
    next
      case 2
      then obtain p r where "cs = p @ q @ r" using Cons.IH by blast
      then have "c # cs = (c # p) @ q @ r" by simp
      then show ?thesis by blast
    qed
  next
    assume "\<exists>p r. c # cs = p @ q @ r"
    then obtain p r where e: "c # cs = p @ q @ r" by blast
    show "includes' (c # cs) q"
    proof (cases p)
      case Nil
      then have "startsWith (c # cs) q" using e by (auto simp: startsWith_iff)
      then show ?thesis by simp
    next
      case (Cons a p')
      then have "cs = p' @ q @ r" using e by simp
      then have "includes' cs q" using Cons.IH by blast
      then show ?thesis by simp
    qed
  qed
qed

lemma matchesSearch_iff:
  "matchesSearch s b \<longleftrightarrow>
     (trim s = [] \<or>
      (\<exists>p r. toLowerCase (title b) = p @ toLowerCase (trim s) @ r) \<or>
      (\<exists>p r. toLowerCase (url b) = p @ toLowerCase (trim s) @ r))"
  by (simp add: matchesSearch_def Let_def includes'_iff toLowerCase_Nil_iff)

lemma mset_insert_cmp: "mset (insert_cmp f x xs) = add_mset x (mset xs)"
  by (induction xs) auto

lemma mset_array_sort: "mset (array_sort f xs) = mset xs"
  by (induction xs) (auto simp: array_sort_def mset_insert_cmp)

lemma set_insert_cmp: "set (insert_cmp f x xs) = insert x (set xs)"
  by (induction xs) auto

lemma sorted_insert_cmp:
  assumes tot: "\<And>a b. f a b \<le> 0 \<or> f b a \<le> 0"
    and tr: "\<And>a b c. f a b \<le> 0 \<Longrightarrow> f b c \<le> 0 \<Longrightarrow> f a c \<le> 0"
    and s: "sorted_wrt (\<lambda>a b. f a b \<le> 0) xs"
  shows "sorted_wrt (\<lambda>a b. f a b \<le> 0) (insert_cmp f x xs)"
  using s
proof (induction xs)
  case Nil
  then show ?case by simp
next
  case (Cons y ys)
  show ?case
  proof (cases "f x y \<le> 0")
    case True
    then have "\<forall>z\<in>set ys. f x z \<le> 0" using Cons.prems tr by auto
    then show ?thesis using True Cons.prems by simp
  next
    case False
    then have "f y x \<le> 0" using tot by blast
    then show ?thesis using False Cons by (auto simp: set_insert_cmp)
  qed
qed

lemma sorted_array_sort:
  assumes tot: "\<And>a b. f a b \<le> 0 \<or> f b a \<le> 0"
    and tr: "\<And>a b c. f a b \<le> 0 \<Longrightarrow> f b c \<le> 0 \<Longrightarrow> f a c \<le> 0"
  shows "sorted_wrt (\<lambda>a b. f a b \<le> 0) (array_sort f xs)"
proof (induction xs)
  case Nil
  then show ?case by (simp add: array_sort_def)
next
  case (Cons x xs)
  have "array_sort f (x # xs) = insert_cmp f x (array_sort f xs)"
    by (simp add: array_sort_def)
  then show ?case using sorted_insert_cmp [of f, OF tot tr Cons.IH] by simp
qed

lemma compareBookmarks_total:
  "consistent lc \<Longrightarrow> compareBookmarks lc sb a b \<le> 0 \<or> compareBookmarks lc sb b a \<le> 0"
proof -
  assume "consistent lc"
  then have tot: "\<And>x y. lc x y \<le> 0 \<or> lc y x \<le> 0"
    unfolding consistent_def by blast
  show ?thesis
    using tot [of "created_at a" "created_at b"] tot [of "title a" "title b"]
    by (auto simp: compareBookmarks_def)
qed

lemma compareBookmarks_trans:
  "consistent lc \<Longrightarrow> compareBookmarks lc sb a b \<le> 0 \<Longrightarrow> compareBookmarks lc sb b c \<le> 0
   \<Longrightarrow> compareBookmarks lc sb a c \<le> 0"
proof -
  assume c: "consistent lc" and ab: "compareBookmarks lc sb a b \<le> 0"
    and bc: "compareBookmarks lc sb b c \<le> 0"
  from c have tr: "\<And>x y z. lc x y \<le> 0 \<Longrightarrow> lc y z \<le> 0 \<Longrightarrow> lc x z \<le> 0"
    unfolding consistent_def by blast
  show ?thesis
  proof (cases sb)
    case Latest
    then show ?thesis using ab bc tr [of "created_at c" "created_at b" "created_at a"]
      by (simp add: compareBookmarks_def)
  next
    case Oldest
    then show ?thesis using ab bc tr [of "created_at a" "created_at b" "created_at c"]
      by (simp add: compareBookmarks_def)
  next
    case Az
    then show ?thesis using ab bc tr [of "title a" "title b" "title c"]
      by (simp add: compareBookmarks_def)
  qed
qed

lemma codeUnitCompare_le: "codeUnitCompare a b \<le> 0 \<longleftrightarrow> a \<le> b"
proof (cases "a < b")
  case True
  then show ?thesis by (simp add: codeUnitCompare_def)
next
  case False
  then show ?thesis by (cases "a = b") (simp_all add: codeUnitCompare_def)
qed

lemma consistent_codeUnitCompare: "consistent codeUnitCompare"
  unfolding consistent_def codeUnitCompare_le
proof (intro conjI allI impI)
  fix a b :: string
  show "a \<le> b \<or> b \<le> a" by (rule linear)
next
  fix a b c :: string
  assume "a \<le> b \<and> b \<le> c"
  then show "a \<le> c" by (elim conjE) (rule order_trans)
qed

lemma collationCompare_le:
  "collationCompare a b \<le> 0 \<longleftrightarrow> map collationWeight a \<le> map collationWeight b"
proof (cases "map collationWeight a < map collationWeight b")
  case True
  then show ?thesis by (simp add: collationCompare_def)
next
  case False
  then show ?thesis
    by (cases "map collationWeight a = map collationWeight b") (simp_all add: collationCompare_def)
qed

lemma consistent_collationCompare: "consistent collationCompare"
  unfolding consistent_def collationCompare_le
proof (intro conjI allI impI)
  fix a b :: string
  show "map collationWeight a \<le> map collationWeight b \<or>
        map collationWeight b \<le> map collationWeight a"
    by (rule linear)
next
  fix a b c :: string
  assume "map collationWeight a \<le> map collationWeight b \<and>
          map collationWeight b \<le> map collationWeight c"
  then show "map collationWeight a \<le> map collationWeight c"
    by (elim conjE) (rule order_trans)
qed

lemma trim_sample_title: "trim '' Docs '' = ''Docs''"
  by (simp add: trim_def isWhiteSpace_def)

subsection \<open>The two-step delete\<close>

text \<open>
  C7: for every state and every bookmark \<open>x\<close>, \<open>requestDelete x\<close> followed by
  \<open>cancelDelete\<close> issues no command (the log is as before, so no delete command reaches
  the store), leaves \<open>bookmarks\<close> unchanged and ends with \<open>deleteTarget\<close> cleared;
  \<open>requestDelete\<close> alone issues no command either.
\<close>

theorem requestDelete_cancelDelete:
  "cancelDelete (requestDelete x t) = t\<lparr>deleteTarget := None\<rparr> \<and>
   calls (requestDelete x t) = calls t \<and>
   calls (cancelDelete (requestDelete x t)) = calls t \<and>
   bookmarks (cancelDelete (requestDelete x t)) = bookmarks t \<and>
   deleteTarget (cancelDelete (requestDelete x t)) = None"
  by (simp add: cancelDelete_def requestDelete_def)

text \<open>
  C9: when the delete command that \<open>handleDelete\<close> issues for the pending target fails,
  the target stays pending, \<open>bookmarks\<close> is unchanged, the error is shown, and the one
  command issued is the delete: nothing is posted to the other tabs. The pending target is
  cleared by \<open>handleDelete\<close> exactly when the command succeeded.
\<close>

theorem handleDelete_failure:
  assumes "deleteTarget t = Some target"
  shows "(resp_error deleteResp = Some message \<longrightarrow>
            deleteTarget (handleDelete deleteResp t) = Some target \<and>
            bookmarks (handleDelete deleteResp t) = bookmarks t \<and>
            error (handleDelete deleteResp t) = Some message \<and>
            calls (handleDelete deleteResp t) = calls t @ [Delete (id' target)]) \<and>
         (deleteTarget (handleDelete r t) = None \<longleftrightarrow> resp_error r = None)"
proof -
  have "deleteTarget (handleDelete r t) = None \<longleftrightarrow> resp_error r = None"
    using assms
    by (cases "resp_error r") (simp_all add: handleDelete_def Let_def notifyTabs_def)
  then show ?thesis
    using assms by (simp add: handleDelete_def Let_def)
qed

theorem handleDelete_failure_witness:
  "deleteTarget (handleDelete (failed ''permission denied'') (sampleTab\<lparr>deleteTarget := Some docs\<rparr>))
     = Some docs \<and>
   bookmarks (handleDelete (failed ''permission denied'') (sampleTab\<lparr>deleteTarget := Some docs\<rparr>))
     = [github, docs] \<and>
   calls (handleDelete (failed ''permission denied'') (sampleTab\<lparr>deleteTarget := Some docs\<rparr>))
     = [Delete ''00000000-0000-4000-8000-000000000001''] \<and>
   deleteTarget (handleDelete ok (sampleTab\<lparr>deleteTarget := Some docs\<rparr>)) = None"
  using handleDelete_failure [of "sampleTab\<lparr>deleteTarget := Some docs\<rparr>" docs
      "failed ''permission denied''" "''permission denied''" ok]
  by (simp add: sampleTab_def failed_def ok_def docs_def)

subsection \<open>Reloading\<close>

text \<open>
  C4: when the tab has a user and the fetch of \<open>loadBookmarks\<close> fails, the error message
  is shown and \<open>bookmarks\<close> is as it was before (a fault of the store is such a failure);
  when the tab has no user, \<open>loadBookmarks\<close> changes nothing and issues no fetch.
\<close>

theorem loadBookmarks_failure:
  "(\<not> falsy (userId t) \<and> resp_error resp = Some message \<longrightarrow>
      loadBookmarks resp t = t\<lparr>error := Some message, calls := calls t @ [Select]\<rparr> \<and>
      bookmarks (loadBookmarks resp t) = bookmarks t \<and>
      fst (reload render (Some message) (t, rows)) = loadBookmarks (failed message) t) \<and>
   (falsy (userId t) \<longrightarrow> loadBookmarks resp t = t)"
  by (simp add: loadBookmarks_def Let_def reload_def supabase_select_def failed_def)

theorem loadBookmarks_failure_witness:
  "loadBookmarks (failed ''Failed to fetch'') sampleTab =
     sampleTab\<lparr>error := Some ''Failed to fetch'', calls := [Select]\<rparr> \<and>
   bookmarks (loadBookmarks (failed ''Failed to fetch'') sampleTab) = [github, docs] \<and>
   loadBookmarks ok (sampleTab\<lparr>userId := None\<rparr>) = sampleTab\<lparr>userId := None\<rparr>"
  using loadBookmarks_failure [of sampleTab "failed ''Failed to fetch''" "''Failed to fetch''"]
    loadBookmarks_failure [of "sampleTab\<lparr>userId := None\<rparr>" ok]
  by (simp add: sampleTab_def failed_def falsy_def userA_def)

subsection \<open>Adding a bookmark\<close>

text \<open>
  C1: when the trimmed title is empty, or the URL does not parse, or its scheme is neither
  http nor https, \<open>handleAdd\<close> only sets one of its three validation messages and issues
  no command: no insert reaches the store.
\<close>

theorem handleAdd_invalid:
  assumes "trim (form_title t) = [] \<or>
           parseURL (trim (form_url t)) = None \<or>
           (\<exists>u. parseURL (trim (form_url t)) = Some u \<and>
                protocol u \<noteq> ''http:'' \<and> protocol u \<noteq> ''https:'')"
  shows "handleAdd parseURL insertResp selectResp t \<in>
           {t\<lparr>error := Some ''Title and URL are required.''\<rparr>,
            t\<lparr>error := Some ''Please enter a valid URL.''\<rparr>,
            t\<lparr>error := Some ''URL must start with http:// or https://''\<rparr>} \<and>
         calls (handleAdd parseURL insertResp selectResp t) = calls t"
proof (cases "trim (form_title t) = [] \<or> trim (form_url t) = []")
  case True
  then show ?thesis by (simp add: handleAdd_def Let_def)
next
  case False
  then have t: "trim (form_title t) \<noteq> []" and u: "trim (form_url t) \<noteq> []" by simp_all
  show ?thesis
  proof (cases "parseURL (trim (form_url t))")
    case None
    then show ?thesis using t u by (simp add: handleAdd_def Let_def)
  next
    case (Some p)
    then have "protocol p \<noteq> ''http:'' \<and> protocol p \<noteq> ''https:''" using assms t by auto
    then show ?thesis using t u Some by (simp add: handleAdd_def Let_def)
  qed
qed

theorem handleAdd_invalid_witness:
  "sampleURL (trim ''example.com/docs'') = None \<and>
   handleAdd sampleURL ok ok (sampleTab\<lparr>form_url := ''example.com/docs''\<rparr>) =
     sampleTab\<lparr>form_url := ''example.com/docs'', error := Some ''Please enter a valid URL.''\<rparr> \<and>
   calls (handleAdd sampleURL ok ok (sampleTab\<lparr>form_url := ''example.com/docs''\<rparr>)) = []"
proof -
  have h: "sampleURL (trim ''example.com/docs'') = None"
    by (simp add: trim_def isWhiteSpace_def sampleURL_def)
  have c: "calls (handleAdd sampleURL ok ok (sampleTab\<lparr>form_url := ''example.com/docs''\<rparr>)) =
      calls (sampleTab\<lparr>form_url := ''example.com/docs''\<rparr>)"
    using handleAdd_invalid [of "sampleTab\<lparr>form_url := ''example.com/docs''\<rparr>" sampleURL ok ok] h
    by simp
  have e: "handleAdd sampleURL ok ok (sampleTab\<lparr>form_url := ''example.com/docs''\<rparr>) =
     sampleTab\<lparr>form_url := ''example.com/docs'', error := Some ''Please enter a valid URL.''\<rparr>"
    using h by (simp add: handleAdd_def Let_def sampleTab_def trim_sample_title)
      (simp add: trim_def isWhiteSpace_def)
  show ?thesis using h c e by (simp add: sampleTab_def)
qed

subsection \<open>Deleting a bookmark that is not the user's\<close>

text \<open>
  The delete policy hides the rows of other users from the command, so a delete by id
  that meets no row of the caller removes nothing and is answered without an error.
\<close>

lemma supabase_delete_not_owned:
  assumes "\<forall>r\<in>set rows. row_id r = i \<longrightarrow> Some (user_id r) \<noteq> uid"
  shows "supabase_delete None uid i rows = (ok, rows)"
proof -
  have "filter (\<lambda>r. \<not> (row_id r = i \<and> read_own uid r \<and> delete_own uid r)) rows = rows"
    using assms by (auto simp: delete_own_def filter_id_conv)
  then show ?thesis by (simp add: supabase_delete_def ok_def)
qed

text \<open>
  C2, as the code has it: when no row with the pending target's id belongs to the tab's
  user, the delete command leaves the table as it is and the store reports no error;
  \<open>handleDelete\<close> then takes its success path: the pending target is cleared, the
  entries with that id are removed from \<open>bookmarks\<close>, which is therefore unchanged when
  no entry has that id, and after the delete command the change is posted on the user's
  channel, if the tab has a user and the window has \<^verbatim>\<open>BroadcastChannel\<close>, and nothing else
  is sent. When the command does fail with an error, the message is shown, \<open>bookmarks\<close>
  and the table are unchanged, and the delete command is all that was sent.
\<close>

theorem confirmDelete_not_owned:
  assumes "deleteTarget t = Some target"
    and "\<forall>r\<in>set rows. row_id r = id' target \<longrightarrow> Some (user_id r) \<noteq> userId t"
  shows "snd (confirmDelete None (t, rows)) = rows \<and>
         error (fst (confirmDelete None (t, rows))) = None \<and>
         deleteTarget (fst (confirmDelete None (t, rows))) = None \<and>
         bookmarks (fst (confirmDelete None (t, rows))) =
           filter (\<lambda>bookmark. id' bookmark \<noteq> id' target) (bookmarks t) \<and>
         (id' target \<notin> set (map id' (bookmarks t)) \<longrightarrow>
            bookmarks (fst (confirmDelete None (t, rows))) = bookmarks t) \<and>
         calls (fst (confirmDelete None (t, rows))) =
           calls t @ Delete (id' target) #
             (if falsy (userId t) \<or> \<not> hasBroadcastChannel t then []
              else [PostMessage (''bookmarks-sync-'' @ the (userId t))]) \<and>
         (\<forall>message.
            error (fst (confirmDelete (Some message) (t, rows))) = Some message \<and>
            bookmarks (fst (confirmDelete (Some message) (t, rows))) = bookmarks t \<and>
            calls (fst (confirmDelete (Some message) (t, rows))) =
              calls t @ [Delete (id' target)] \<and>
            snd (confirmDelete (Some message) (t, rows)) = rows)"
proof -
  have a: "confirmDelete None (t, rows) = (handleDelete ok t, rows)"
    using assms by (simp add: confirmDelete_def supabase_delete_not_owned)
  have b: "\<And>message. confirmDelete (Some message) (t, rows) = (handleDelete (failed message) t, rows)"
    using assms by (simp add: confirmDelete_def supabase_delete_def)
  have c: "id' target \<notin> set (map id' (bookmarks t)) \<Longrightarrow>
      filter (\<lambda>bookmark. id' bookmark \<noteq> id' target) (bookmarks t) = bookmarks t"
    by (auto simp: filter_id_conv image_iff)
  show ?thesis
    using assms(1) c
    by (simp add: a b handleDelete_def Let_def ok_def failed_def notifyTabs_def)
qed

theorem confirmDelete_not_owned_witness:
  "snd (confirmDelete None (sampleTab\<lparr>deleteTarget := Some news\<rparr>, sampleRows)) = sampleRows \<and>
   bookmarks (fst (confirmDelete None (sampleTab\<lparr>deleteTarget := Some news\<rparr>, sampleRows))) =
     [github, docs] \<and>
   calls (fst (confirmDelete None (sampleTab\<lparr>deleteTarget := Some news\<rparr>, sampleRows))) =
     [Delete ''00000000-0000-4000-8000-000000000003'',
      PostMessage ''bookmarks-sync-11111111-1111-4111-8111-111111111111''] \<and>
   calls (fst (confirmDelete None
                 (sampleTab\<lparr>hasBroadcastChannel := False, deleteTarget := Some news\<rparr>, sampleRows))) =
     [Delete ''00000000-0000-4000-8000-000000000003''] \<and>
   bookmarks (fst (confirmDelete (Some ''Failed to fetch'')
                     (sampleTab\<lparr>deleteTarget := Some news\<rparr>, sampleRows))) = [github, docs]"
proof -
  have h1: "deleteTarget (sampleTab\<lparr>deleteTarget := Some news\<rparr>) = Some news" by simp
  have h2: "\<forall>r\<in>set sampleRows. row_id r = id' news \<longrightarrow>
      Some (user_id r) \<noteq> userId (sampleTab\<lparr>deleteTarget := Some news\<rparr>)"
    by (simp add: sampleRows_def news_def sampleTab_def userA_def userB_def)
  have h3: "id' news \<notin> set (map id' (bookmarks (sampleTab\<lparr>deleteTarget := Some news\<rparr>)))"
    by (simp add: sampleTab_def news_def github_def docs_def)
  note th = confirmDelete_not_owned [OF h1 h2]
  have a: "snd (confirmDelete None (sampleTab\<lparr>deleteTarget := Some news\<rparr>, sampleRows)) = sampleRows"
    using th by blast
  have b: "bookmarks (fst (confirmDelete None (sampleTab\<lparr>deleteTarget := Some news\<rparr>, sampleRows))) =
      bookmarks (sampleTab\<lparr>deleteTarget := Some news\<rparr>)"
    using th h3 by blast
  have c: "bookmarks (fst (confirmDelete (Some ''Failed to fetch'')
                     (sampleTab\<lparr>deleteTarget := Some news\<rparr>, sampleRows))) =
      bookmarks (sampleTab\<lparr>deleteTarget := Some news\<rparr>)"
    using th by blast
  have d: "bookmarks (sampleTab\<lparr>deleteTarget := Some news\<rparr>) = [github, docs]"
    by (simp add: sampleTab_def)
  have "calls (fst (confirmDelete None (sampleTab\<lparr>deleteTarget := Some news\<rparr>, sampleRows))) =
      calls (sampleTab\<lparr>deleteTarget := Some news\<rparr>) @ Delete (id' news) #
        (if falsy (userId (sampleTab\<lparr>deleteTarget := Some news\<rparr>)) \<or>
            \<not> hasBroadcastChannel (sampleTab\<lparr>deleteTarget := Some news\<rparr>) then []
         else [PostMessage (''bookmarks-sync-'' @ the (userId (sampleTab\<lparr>deleteTarget := Some news\<rparr>)))])"
    using th by blast
  then have e: "calls (fst (confirmDelete None (sampleTab\<lparr>deleteTarget := Some news\<rparr>, sampleRows))) =
     [Delete ''00000000-0000-4000-8000-000000000003'',
      PostMessage ''bookmarks-sync-11111111-1111-4111-8111-111111111111'']"
    by (simp add: sampleTab_def news_def falsy_def userA_def)
  let ?q = "sampleTab\<lparr>hasBroadcastChannel := False, deleteTarget := Some news\<rparr>"
  have q1: "deleteTarget ?q = Some news" by simp
  have q2: "\<forall>r\<in>set sampleRows. row_id r = id' news \<longrightarrow> Some (user_id r) \<noteq> userId ?q"
    by (simp add: sampleRows_def news_def sampleTab_def userA_def userB_def)
  have "calls (fst (confirmDelete None (?q, sampleRows))) =
      calls ?q @ Delete (id' news) #
        (if falsy (userId ?q) \<or> \<not> hasBroadcastChannel ?q then []
         else [PostMessage (''bookmarks-sync-'' @ the (userId ?q))])"
    using confirmDelete_not_owned [OF q1 q2] by blast
  then have f: "calls (fst (confirmDelete None (?q, sampleRows))) =
      [Delete ''00000000-0000-4000-8000-000000000003'']"
    by (simp add: sampleTab_def news_def)
  show ?thesis using a b c d e f by simp
qed

text \<open>
  The claim as stated asks for an error. The third sample row belongs to the second user;
  the first user's tab, which has \<^verbatim>\<open>BroadcastChannel\<close>, confirms its deletion: no error is
  shown, the dialog closes, the change is posted to the other tabs, and the table still
  has the row.
\<close>

theorem confirmDelete_not_owned_counterexample:
  "user_id (sampleRows ! 2) = userB \<and> userB \<noteq> userA \<and>
   row_id (sampleRows ! 2) = id' news \<and>
   error (fst (confirmDelete None (sampleTab\<lparr>deleteTarget := Some news\<rparr>, sampleRows))) = None \<and>
   deleteTarget (fst (confirmDelete None (sampleTab\<lparr>deleteTarget := Some news\<rparr>, sampleRows))) = None \<and>
   calls (fst (confirmDelete None (sampleTab\<lparr>deleteTarget := Some news\<rparr>, sampleRows))) =
     [Delete ''00000000-0000-4000-8000-000000000003'',
      PostMessage ''bookmarks-sync-11111111-1111-4111-8111-111111111111''] \<and>
   snd (confirmDelete None (sampleTab\<lparr>deleteTarget := Some news\<rparr>, sampleRows)) = sampleRows"
  by (simp add: confirmDelete_def supabase_delete_def read_own_def delete_own_def handleDelete_def Let_def
      notifyTabs_def falsy_def sampleTab_def sampleRows_def news_def userA_def userB_def)

subsection \<open>The derived list\<close>

text \<open>
  C3, as the code has it: for every list, search text and sort mode, the derived list has
  exactly the entries of \<open>bookmarks\<close> whose lower-cased title or url contains the
  trimmed, lower-cased search text, all of them when the trimmed text is empty. For \<open>Az\<close>
  it is ordered by title ascending, in the order of \<open>localeCompare\<close>. For \<open>Latest\<close> it is
  ordered by creation time descending and for \<open>Oldest\<close> by creation time ascending,
  whenever \<open>localeCompare\<close> is chronological on \<open>bookmarks\<close>; of other lists the order
  is not stated. The derived list depends on \<open>bookmarks\<close>, \<open>search\<close> and \<open>sortBy\<close> only.
\<close>

theorem filteredBookmarks_trimmed:
  assumes "consistent localeCompare"
  shows "mset (filteredBookmarks localeCompare t) =
           filter_mset (matchesSearch (search t)) (mset (bookmarks t)) \<and>
         (\<forall>b. matchesSearch (search t) b \<longleftrightarrow>
                (trim (search t) = [] \<or>
                 (\<exists>p r. toLowerCase (title b) = p @ toLowerCase (trim (search t)) @ r) \<or>
                 (\<exists>p r. toLowerCase (url b) = p @ toLowerCase (trim (search t)) @ r))) \<and>
         (sortBy t = Az \<longrightarrow>
            sorted_wrt (\<lambda>a b. localeCompare (title a) (title b) \<le> 0)
              (filteredBookmarks localeCompare t)) \<and>
         (sortBy t = Latest \<and> chronological localeCompare instant (bookmarks t) \<longrightarrow>
            sorted_wrt (\<lambda>a b. instant (created_at b) \<le> instant (created_at a))
              (filteredBookmarks localeCompare t)) \<and>
         (sortBy t = Oldest \<and> chronological localeCompare instant (bookmarks t) \<longrightarrow>
            sorted_wrt (\<lambda>a b. instant (created_at a) \<le> instant (created_at b))
              (filteredBookmarks localeCompare t)) \<and>
         (\<forall>t'. bookmarks t' = bookmarks t \<and> search t' = search t \<and> sortBy t' = sortBy t \<longrightarrow>
            filteredBookmarks localeCompare t' = filteredBookmarks localeCompare t)"
proof -
  let ?f = "compareBookmarks localeCompare (sortBy t)"
  let ?F = "filteredBookmarks localeCompare t"
  have m: "mset ?F = filter_mset (matchesSearch (search t)) (mset (bookmarks t))"
    by (simp add: filteredBookmarks_def sortedBookmarks_def mset_array_sort)
  have sub: "\<And>x. x \<in> set ?F \<Longrightarrow> x \<in> set (bookmarks t)"
  proof -
    fix x
    assume "x \<in> set ?F"
    then have "x \<in># mset ?F" by simp
    then show "x \<in> set (bookmarks t)" unfolding m by simp
  qed
  have "sorted_wrt (\<lambda>a b. ?f a b \<le> 0) (array_sort ?f (bookmarks t))"
    by (rule sorted_array_sort)
       (rule compareBookmarks_total [OF assms], rule compareBookmarks_trans [OF assms])
  then have s: "sorted_wrt (\<lambda>a b. ?f a b \<le> 0) ?F"
    by (simp add: filteredBookmarks_def sortedBookmarks_def sorted_wrt_filter)
  have z: "sortBy t = Az \<Longrightarrow> sorted_wrt (\<lambda>a b. localeCompare (title a) (title b) \<le> 0) ?F"
    using s by (simp add: compareBookmarks_def)
  have l: "sortBy t = Latest \<and> chronological localeCompare instant (bookmarks t) \<Longrightarrow>
      sorted_wrt (\<lambda>a b. instant (created_at b) \<le> instant (created_at a)) ?F"
  proof -
    assume h: "sortBy t = Latest \<and> chronological localeCompare instant (bookmarks t)"
    then have "sorted_wrt (\<lambda>a b. localeCompare (created_at b) (created_at a) \<le> 0) ?F"
      using s by (simp add: compareBookmarks_def)
    then show ?thesis
    proof (rule sorted_wrt_mono_rel [rotated])
      fix x y
      assume "x \<in> set ?F" and "y \<in> set ?F"
        and "localeCompare (created_at y) (created_at x) \<le> 0"
      then show "instant (created_at y) \<le> instant (created_at x)"
        using h sub unfolding chronological_def by blast
    qed
  qed
  have o: "sortBy t = Oldest \<and> chronological localeCompare instant (bookmarks t) \<Longrightarrow>
      sorted_wrt (\<lambda>a b. instant (created_at a) \<le> instant (created_at b)) ?F"
  proof -
    assume h: "sortBy t = Oldest \<and> chronological localeCompare instant (bookmarks t)"
    then have "sorted_wrt (\<lambda>a b. localeCompare (created_at a) (created_at b) \<le> 0) ?F"
      using s by (simp add: compareBookmarks_def)
    then show ?thesis
    proof (rule sorted_wrt_mono_rel [rotated])
      fix x y
      assume "x \<in> set ?F" and "y \<in> set ?F"
        and "localeCompare (created_at x) (created_at y) \<le> 0"
      then show "instant (created_at x) \<le> instant (created_at y)"
        using h sub unfolding chronological_def by blast
    qed
  qed
  have p: "\<And>t'. bookmarks t' = bookmarks t \<and> search t' = search t \<and> sortBy t' = sortBy t \<Longrightarrow>
      filteredBookmarks localeCompare t' = filteredBookmarks localeCompare t"
    by (simp add: filteredBookmarks_def sortedBookmarks_def)
  show ?thesis
    using m l o z p matchesSearch_iff [of "search t"] by blast
qed

theorem filteredBookmarks_trimmed_witness:
  "consistent codeUnitCompare \<and>
   filteredBookmarks codeUnitCompare (sampleTab\<lparr>sortBy := Az\<rparr>) = [docs, github] \<and>
   sorted_wrt (\<lambda>a b. codeUnitCompare (title a) (title b) \<le> 0) [docs, github] \<and>
   chronological codeUnitCompare sampleInstant (bookmarks sampleTab) \<and>
   filteredBookmarks codeUnitCompare sampleTab = [github, docs] \<and>
   sorted_wrt (\<lambda>a b. sampleInstant (created_at b) \<le> sampleInstant (created_at a)) [github, docs]"
proof -
  have e: "filteredBookmarks codeUnitCompare (sampleTab\<lparr>sortBy := Az\<rparr>) = [docs, github]"
    by code_simp
  have "sortBy (sampleTab\<lparr>sortBy := Az\<rparr>) = Az" by simp
  then have "sorted_wrt (\<lambda>a b. codeUnitCompare (title a) (title b) \<le> 0)
      (filteredBookmarks codeUnitCompare (sampleTab\<lparr>sortBy := Az\<rparr>))"
    using filteredBookmarks_trimmed [OF consistent_codeUnitCompare, of "sampleTab\<lparr>sortBy := Az\<rparr>"]
    by blast
  then have z: "sorted_wrt (\<lambda>a b. codeUnitCompare (title a) (title b) \<le> 0) [docs, github]"
    unfolding e .
  have k1: "codeUnitCompare (created_at github) (created_at docs) = 1" by code_simp
  have k2: "codeUnitCompare (created_at docs) (created_at github) = - 1" by code_simp
  have k3: "codeUnitCompare (created_at github) (created_at github) = 0"
    by (simp add: codeUnitCompare_def)
  have k4: "codeUnitCompare (created_at docs) (created_at docs) = 0"
    by (simp add: codeUnitCompare_def)
  have i1: "sampleInstant (created_at github) = 1704189600000000"
    by (simp add: github_def sampleInstant_def)
  have i2: "sampleInstant (created_at docs) = 1704101400000000"
    by (simp add: docs_def sampleInstant_def)
  have bs: "bookmarks sampleTab = [github, docs]" by (simp add: sampleTab_def)
  have c: "chronological codeUnitCompare sampleInstant (bookmarks sampleTab)"
    unfolding chronological_def bs by (simp add: k1 k2 k3 k4 i1 i2)
  have f: "filteredBookmarks codeUnitCompare sampleTab = [github, docs]"
    by code_simp
  have "sortBy sampleTab = Latest" by (simp add: sampleTab_def)
  then have "sorted_wrt (\<lambda>a b. sampleInstant (created_at b) \<le> sampleInstant (created_at a))
      (filteredBookmarks codeUnitCompare sampleTab)"
    using c filteredBookmarks_trimmed [OF consistent_codeUnitCompare, of sampleTab sampleInstant]
    by blast
  then have l: "sorted_wrt (\<lambda>a b. sampleInstant (created_at b) \<le> sampleInstant (created_at a))
      [github, docs]"
    unfolding f .
  show ?thesis
    using consistent_codeUnitCompare e z c f l by (simp only: simp_thms)
qed

text \<open>
  The claim as stated matches the search text itself. The text \<open>''git ''\<close>, with a space at
  its end, is not empty and occurs neither in the title nor in the url of the GitHub
  entry, yet the derived list shows that entry: the text is trimmed before matching.

  The claim as stated orders \<open>Latest\<close> by creation time. \<open>laterRow\<close>, which the store
  renders as \<open>later\<close>, was made after the first sample row, which it renders as
  \<open>docs\<close>; under \<open>collationCompare\<close>, a consistent comparator, the derived list of the
  tab, whose \<open>sortBy\<close> is \<open>Latest\<close>, shows \<open>docs\<close> first: the texts are compared, and
  \<open>.\<close> ranks before \<open>+\<close>.
\<close>

theorem filteredBookmarks_counterexample:
  "filteredBookmarks codeUnitCompare (sampleTab\<lparr>search := ''git ''\<rparr>) = [github] \<and>
   ''git '' \<noteq> [] \<and>
   \<not> includes' (toLowerCase (title github)) (toLowerCase ''git '') \<and>
   \<not> includes' (toLowerCase (url github)) (toLowerCase ''git '') \<and>
   consistent collationCompare \<and>
   sortBy sampleTab = Latest \<and>
   to_bookmark sampleRender (sampleRows ! 0) = docs \<and>
   to_bookmark sampleRender laterRow = later \<and>
   row_created_at (sampleRows ! 0) < row_created_at laterRow \<and>
   filteredBookmarks collationCompare (sampleTab\<lparr>bookmarks := [later, docs]\<rparr>) = [docs, later]"
proof -
  have a: "filteredBookmarks codeUnitCompare (sampleTab\<lparr>search := ''git ''\<rparr>) = [github] \<and>
      ''git '' \<noteq> [] \<and>
      \<not> includes' (toLowerCase (title github)) (toLowerCase ''git '') \<and>
      \<not> includes' (toLowerCase (url github)) (toLowerCase ''git '')"
    by code_simp
  have b: "sortBy sampleTab = Latest \<and>
      to_bookmark sampleRender (sampleRows ! 0) = docs \<and>
      to_bookmark sampleRender laterRow = later \<and>
      row_created_at (sampleRows ! 0) < row_created_at laterRow"
    by (simp add: sampleTab_def to_bookmark_def sampleRender_def sampleRows_def docs_def
        laterRow_def later_def)
  have c: "filteredBookmarks collationCompare (sampleTab\<lparr>bookmarks := [later, docs]\<rparr>) =
      [docs, later]"
    by code_simp
  show ?thesis using a b c consistent_collationCompare by (simp only: simp_thms)
qed

text \<open>
  C10: a search text of white space only matches every entry: the derived list is the one
  of the empty search text, the whole sorted list.
\<close>

theorem whitespace_search:
  assumes "\<forall>c\<in>set q. isWhiteSpace c"
  shows "(\<forall>b. matchesSearch q b) \<and>
         filteredBookmarks localeCompare (t\<lparr>search := q\<rparr>) =
           filteredBookmarks localeCompare (t\<lparr>search := []\<rparr>) \<and>
         filteredBookmarks localeCompare (t\<lparr>search := q\<rparr>) = sortedBookmarks localeCompare t \<and>
         mset (filteredBookmarks localeCompare (t\<lparr>search := q\<rparr>)) = mset (bookmarks t)"
proof -
  have a: "\<And>b. matchesSearch q b"
    using trim_all_white [OF assms] by (simp add: matchesSearch_iff)
  have b: "\<And>b. matchesSearch [] b"
    by (simp add: matchesSearch_iff trim_def)
  show ?thesis
    by (simp add: a b filteredBookmarks_def sortedBookmarks_def mset_array_sort)
qed

theorem whitespace_search_witness:
  "list_all isWhiteSpace [CHR '' '', CHR 0x09, CHR '' ''] \<and>
   filteredBookmarks codeUnitCompare (sampleTab\<lparr>search := [CHR '' '', CHR 0x09, CHR '' '']\<rparr>) = [github, docs]"
proof -
  have h: "\<forall>c\<in>set [CHR '' '', CHR 0x09, CHR '' '']. isWhiteSpace c" by (simp add: isWhiteSpace_def)
  have e: "sortedBookmarks codeUnitCompare sampleTab = [github, docs]" by code_simp
  have "filteredBookmarks codeUnitCompare (sampleTab\<lparr>search := [CHR '' '', CHR 0x09, CHR '' '']\<rparr>) =
      sortedBookmarks codeUnitCompare sampleTab"
    using whitespace_search [OF h, of codeUnitCompare sampleTab] by blast
  moreover have "list_all isWhiteSpace [CHR '' '', CHR 0x09, CHR '' '']"
    by (simp add: isWhiteSpace_def)
  ultimately show ?thesis using e by (simp only: simp_thms)
qed

subsection \<open>A successful reload\<close>

lemma select_rows_props:
  "mset (select_rows (Some u) rows) = filter_mset (\<lambda>r. user_id r = u) (mset rows) \<and>
   sorted_wrt (\<lambda>a b. row_created_at b \<le> row_created_at a) (select_rows (Some u) rows)"
proof -
  have r: "read_own (Some u) = (\<lambda>r. user_id r = u)"
    by (auto simp: read_own_def)
  have "sorted (map row_created_at (sort_key row_created_at (filter (read_own (Some u)) rows)))"
    by (rule sorted_sort_key)
  then have "sorted_wrt (\<lambda>a b. row_created_at a \<le> row_created_at b)
      (sort_key row_created_at (filter (read_own (Some u)) rows))"
    by (simp add: sorted_map)
  then show ?thesis
    by (simp add: select_rows_def sorted_wrt_rev r)
qed

text \<open>
  C5: when the tab has a user and the fetch succeeds, \<open>bookmarks\<close> becomes the fetched
  list, whatever it was before; on the store that list is made of exactly the rows of the
  user, latest first.
\<close>

theorem reload_success:
  assumes "userId t = Some u" and "u \<noteq> []"
  shows "bookmarks (fst (reload render None (t, rows))) =
           map (to_bookmark render) (select_rows (Some u) rows) \<and>
         mset (select_rows (Some u) rows) = filter_mset (\<lambda>r. user_id r = u) (mset rows) \<and>
         sorted_wrt (\<lambda>a b. row_created_at b \<le> row_created_at a) (select_rows (Some u) rows) \<and>
         bookmarks (fst (reload render None (t\<lparr>bookmarks := previous\<rparr>, rows))) =
           bookmarks (fst (reload render None (t, rows))) \<and>
         (\<forall>resp. resp_error resp = None \<longrightarrow>
            bookmarks (loadBookmarks resp t) = (case data resp of None \<Rightarrow> [] | Some d \<Rightarrow> d))"
proof -
  have f: "\<not> falsy (userId t)" using assms by (simp add: falsy_def)
  show ?thesis
    using f assms(1) select_rows_props [of u rows]
    by (simp add: reload_def loadBookmarks_def Let_def supabase_select_def)
qed

theorem reload_success_witness:
  "bookmarks (fst (reload sampleRender None (sampleTab\<lparr>bookmarks := []\<rparr>, sampleRows))) =
     [github, docs] \<and>
   bookmarks (fst (reload sampleRender None (sampleTab, sampleRows))) = [github, docs]"
proof -
  have h1: "userId sampleTab = Some userA" by (simp add: sampleTab_def)
  have h2: "userA \<noteq> []" by (simp add: userA_def)
  have e: "map (to_bookmark sampleRender) (select_rows (Some userA) sampleRows) = [github, docs]"
    by (simp add: to_bookmark_def select_rows_def read_own_def sampleRows_def sampleRender_def
        github_def docs_def userA_def userB_def)
  note th = reload_success [OF h1 h2, of sampleRender sampleRows "[]"]
  have a: "bookmarks (fst (reload sampleRender None (sampleTab, sampleRows))) =
      map (to_bookmark sampleRender) (select_rows (Some userA) sampleRows)"
    using th by blast
  have b: "bookmarks (fst (reload sampleRender None (sampleTab\<lparr>bookmarks := []\<rparr>, sampleRows))) =
      bookmarks (fst (reload sampleRender None (sampleTab, sampleRows)))"
    using th by blast
  show ?thesis using a b e by (simp only: simp_thms)
qed

subsection \<open>The insert command\<close>

lemma supabase_insert_owner:
  assumes "resp_error (fst (supabase_insert fault uid g now payload rows)) = None"
  shows "\<exists>r. snd (supabase_insert fault uid g now payload rows) = rows @ [r] \<and>
             uid = Some (user_id r)"
  using assms
  by (auto simp: supabase_insert_def set_bookmark_user_id_def insert_own_def failed_def Let_def
      split: option.splits if_splits)

text \<open>
  An insert by a signed-in caller, with a title, a url and a new id, is accepted whatever
  owner the payload names, or none: the trigger has set the owner before the policy and
  the constraints are checked.
\<close>

lemma supabase_insert_assigns_owner:
  assumes "map_of payload ''title'' = Some ti" and "map_of payload ''url'' = Some ur"
    and "g \<notin> set (map row_id rows)"
  shows "supabase_insert None (Some caller) g now payload rows =
           (ok, rows @ [\<lparr>row_id = g, user_id = caller, row_title = ti, row_url = ur,
                         row_created_at = now\<rparr>])"
  using assms
  by (simp add: supabase_insert_def set_bookmark_user_id_def insert_own_def ok_def Let_def)

lemma trim_sample_url: "trim ''  HTTP://Example.COM '' = ''HTTP://Example.COM''"
  by (simp add: trim_def isWhiteSpace_def)

text \<open>
  C6: for a title that is not empty after trimming and a URL that parses with scheme http
  or https, \<open>handleAdd\<close> issues one insert, whose payload has the two columns \<open>title\<close>,
  the trimmed title, and \<open>url\<close>, the serialisation of the parsed URL, and no \<open>user_id\<close>.
  The store assigns the owner: it accepts that payload from any signed-in caller, under
  a new id, and the row it adds has the caller as \<open>user_id\<close>; it does the same for a
  payload that names any other owner; and every insert it accepts adds one row, of the
  caller.
\<close>

theorem handleAdd_payload:
  assumes "trim (form_title t) \<noteq> []" and "trim (form_url t) \<noteq> []"
    and "parseURL (trim (form_url t)) = Some u"
    and "protocol u = ''http:'' \<or> protocol u = ''https:''"
  shows "(\<exists>rest. calls (handleAdd parseURL insertResp selectResp t) =
             calls t @ Insert [(''title'', trim (form_title t)), (''url'', href u)] # rest \<and>
             (\<forall>p. Insert p \<notin> set rest)) \<and>
         map_of [(''title'', trim (form_title t)), (''url'', href u)] ''user_id'' = None \<and>
         (\<forall>caller g now rows. g \<notin> set (map row_id rows) \<longrightarrow>
            supabase_insert None (Some caller) g now
              [(''title'', trim (form_title t)), (''url'', href u)] rows =
            (ok, rows @ [\<lparr>row_id = g, user_id = caller, row_title = trim (form_title t),
                          row_url = href u, row_created_at = now\<rparr>])) \<and>
         (\<forall>caller other g now rows. g \<notin> set (map row_id rows) \<longrightarrow>
            supabase_insert None (Some caller) g now
              [(''title'', trim (form_title t)), (''url'', href u), (''user_id'', other)] rows =
            (ok, rows @ [\<lparr>row_id = g, user_id = caller, row_title = trim (form_title t),
                          row_url = href u, row_created_at = now\<rparr>])) \<and>
         (\<forall>fault uid g now payload rows.
            resp_error (fst (supabase_insert fault uid g now payload rows)) = None \<longrightarrow>
            (\<exists>r. snd (supabase_insert fault uid g now payload rows) = rows @ [r] \<and>
                 uid = Some (user_id r)))"
proof -
  have a: "\<exists>rest. calls (handleAdd parseURL insertResp selectResp t) =
             calls t @ Insert [(''title'', trim (form_title t)), (''url'', href u)] # rest \<and>
             (\<forall>p. Insert p \<notin> set rest)"
    using assms
    by (auto simp: handleAdd_def Let_def loadBookmarks_def notifyTabs_def split: option.splits)
  have b: "\<And>caller g now rows. g \<notin> set (map row_id rows) \<Longrightarrow>
      supabase_insert None (Some caller) g now
        [(''title'', trim (form_title t)), (''url'', href u)] rows =
      (ok, rows @ [\<lparr>row_id = g, user_id = caller, row_title = trim (form_title t),
                    row_url = href u, row_created_at = now\<rparr>])"
    by (rule supabase_insert_assigns_owner) simp_all
  have c: "\<And>caller other g now rows. g \<notin> set (map row_id rows) \<Longrightarrow>
      supabase_insert None (Some caller) g now
        [(''title'', trim (form_title t)), (''url'', href u), (''user_id'', other)] rows =
      (ok, rows @ [\<lparr>row_id = g, user_id = caller, row_title = trim (form_title t),
                    row_url = href u, row_created_at = now\<rparr>])"
    by (rule supabase_insert_assigns_owner) simp_all
  have d: "map_of [(''title'', trim (form_title t)), (''url'', href u)] ''user_id'' = None"
    by simp
  show ?thesis
    using a b c d supabase_insert_owner by blast
qed

theorem handleAdd_payload_witness:
  "trim (form_title (sampleTab\<lparr>form_url := ''  HTTP://Example.COM ''\<rparr>)) = ''Docs'' \<and>
   sampleURL (trim (form_url (sampleTab\<lparr>form_url := ''  HTTP://Example.COM ''\<rparr>))) =
     Some \<lparr>protocol = ''http:'', href = ''http://example.com/''\<rparr> \<and>
   (\<exists>rest. calls (handleAdd sampleURL ok ok (sampleTab\<lparr>form_url := ''  HTTP://Example.COM ''\<rparr>)) =
      Insert [(''title'', ''Docs''), (''url'', ''http://example.com/'')] # rest) \<and>
   supabase_insert None (Some userA) ''00000000-0000-4000-8000-000000000004'' 1704300000000000
     [(''title'', ''Docs''), (''url'', ''http://example.com/'')] sampleRows =
     (ok, sampleRows @
        [\<lparr>row_id = ''00000000-0000-4000-8000-000000000004'', user_id = userA,
          row_title = ''Docs'', row_url = ''http://example.com/'',
          row_created_at = 1704300000000000\<rparr>]) \<and>
   supabase_insert None (Some userA) ''00000000-0000-4000-8000-000000000004'' 1704300000000000
     [(''title'', ''Docs''), (''url'', ''http://example.com/''), (''user_id'', userB)] sampleRows =
     (ok, sampleRows @
        [\<lparr>row_id = ''00000000-0000-4000-8000-000000000004'', user_id = userA,
          row_title = ''Docs'', row_url = ''http://example.com/'',
          row_created_at = 1704300000000000\<rparr>])"
proof -
  let ?t = "sampleTab\<lparr>form_url := ''  HTTP://Example.COM ''\<rparr>"
  let ?u = "\<lparr>protocol = ''http:'', href = ''http://example.com/''\<rparr>"
  let ?g = "''00000000-0000-4000-8000-000000000004''"
  have h1: "trim (form_title ?t) = ''Docs''"
    by (simp add: sampleTab_def trim_sample_title)
  have h2: "trim (form_url ?t) = ''HTTP://Example.COM''"
    by (simp add: trim_sample_url)
  have h3: "sampleURL (trim (form_url ?t)) = Some ?u"
    unfolding h2 by (simp add: sampleURL_def)
  have h4: "protocol ?u = ''http:'' \<or> protocol ?u = ''https:''" by simp
  have n1: "trim (form_title ?t) \<noteq> []" unfolding h1 by simp
  have n2: "trim (form_url ?t) \<noteq> []" unfolding h2 by simp
  have c: "calls ?t = []" by (simp add: sampleTab_def)
  have g: "?g \<notin> set (map row_id sampleRows)" by (simp add: sampleRows_def)
  have hr: "href ?u = ''http://example.com/''" by simp
  note th = handleAdd_payload [where parseURL = sampleURL and insertResp = ok and selectResp = ok,
        OF n1 n2 h3 h4]
  obtain rest where "calls (handleAdd sampleURL ok ok ?t) =
      calls ?t @ Insert [(''title'', trim (form_title ?t)), (''url'', href ?u)] # rest"
    using th by blast
  then have r: "calls (handleAdd sampleURL ok ok ?t) =
      Insert [(''title'', ''Docs''), (''url'', ''http://example.com/'')] # rest"
    unfolding h1 c by simp
  have "supabase_insert None (Some userA) ?g 1704300000000000
      [(''title'', trim (form_title ?t)), (''url'', href ?u)] sampleRows =
     (ok, sampleRows @
        [\<lparr>row_id = ?g, user_id = userA, row_title = trim (form_title ?t),
          row_url = href ?u, row_created_at = 1704300000000000\<rparr>])"
    using th g by blast
  then have i1: "supabase_insert None (Some userA) ?g 1704300000000000
      [(''title'', ''Docs''), (''url'', ''http://example.com/'')] sampleRows =
     (ok, sampleRows @
        [\<lparr>row_id = ?g, user_id = userA, row_title = ''Docs'',
          row_url = ''http://example.com/'', row_created_at = 1704300000000000\<rparr>])"
    unfolding h1 hr .
  have "supabase_insert None (Some userA) ?g 1704300000000000
      [(''title'', trim (form_title ?t)), (''url'', href ?u), (''user_id'', userB)] sampleRows =
     (ok, sampleRows @
        [\<lparr>row_id = ?g, user_id = userA, row_title = trim (form_title ?t),
          row_url = href ?u, row_created_at = 1704300000000000\<rparr>])"
    using th g by blast
  then have i2: "supabase_insert None (Some userA) ?g 1704300000000000
      [(''title'', ''Docs''), (''url'', ''http://example.com/''), (''user_id'', userB)] sampleRows =
     (ok, sampleRows @
        [\<lparr>row_id = ?g, user_id = userA, row_title = ''Docs'',
          row_url = ''http://example.com/'', row_created_at = 1704300000000000\<rparr>])"
    unfolding h1 hr .
  show ?thesis using h1 h3 r i1 i2 by blast
qed

subsection \<open>The broadcast channel\<close>

text \<open>
  C8: for a tab of user \<open>u\<close>, the channel it listens on and the channel it posts to are
  named \<open>''bookmarks-sync-'' @ u\<close>; a message on the channel of another user \<open>v\<close> leaves
  the tab as it is, with no reload.
\<close>

theorem tabChannel_owner:
  assumes "userId t = Some u"
  shows "(tabChannel t = None \<or> tabChannel t = Some (''bookmarks-sync-'' @ u)) \<and>
         (calls (notifyTabs t) = calls t \<or>
          calls (notifyTabs t) = calls t @ [PostMessage (''bookmarks-sync-'' @ u)]) \<and>
         (isAuthenticated t \<and> u \<noteq> [] \<and> hasBroadcastChannel t \<longrightarrow>
            tabChannel t = Some (''bookmarks-sync-'' @ u) \<and>
            calls (notifyTabs t) = calls t @ [PostMessage (''bookmarks-sync-'' @ u)] \<and>
            (\<forall>resp. onmessage (''bookmarks-sync-'' @ u) resp t = loadBookmarks resp t)) \<and>
         (\<forall>v resp. v \<noteq> u \<longrightarrow> onmessage (''bookmarks-sync-'' @ v) resp t = t)"
  using assms
  by (simp add: tabChannel_def notifyTabs_def onmessage_def falsy_def)

theorem tabChannel_owner_witness:
  "tabChannel sampleTab = Some ''bookmarks-sync-11111111-1111-4111-8111-111111111111'' \<and>
   calls (notifyTabs sampleTab) =
     [PostMessage ''bookmarks-sync-11111111-1111-4111-8111-111111111111''] \<and>
   onmessage ''bookmarks-sync-22222222-2222-4222-8222-222222222222'' ok sampleTab = sampleTab \<and>
   calls (onmessage ''bookmarks-sync-11111111-1111-4111-8111-111111111111'' ok sampleTab) = [Select]"
proof -
  have h: "userId sampleTab = Some userA" by (simp add: sampleTab_def)
  have g: "isAuthenticated sampleTab \<and> userA \<noteq> [] \<and> hasBroadcastChannel sampleTab"
    by (simp add: sampleTab_def userA_def)
  have n: "userB \<noteq> userA" by (simp add: userA_def userB_def)
  note th = tabChannel_owner [OF h]
  have a: "tabChannel sampleTab = Some (''bookmarks-sync-'' @ userA)"
    using th g by blast
  have b: "calls (notifyTabs sampleTab) = calls sampleTab @ [PostMessage (''bookmarks-sync-'' @ userA)]"
    using th g by blast
  have c: "onmessage (''bookmarks-sync-'' @ userB) ok sampleTab = sampleTab"
    using th n by blast
  have d: "onmessage (''bookmarks-sync-'' @ userA) ok sampleTab = loadBookmarks ok sampleTab"
    using th g by blast
  have e: "calls (loadBookmarks ok sampleTab) = [Select]"
    by (simp add: loadBookmarks_def falsy_def sampleTab_def ok_def userA_def)
  have f: "calls sampleTab = []" by (simp add: sampleTab_def)
  show ?thesis
    using a b c d e f by (simp add: userA_def userB_def)
qed

end
